theory Spec2Isabelle
  imports Main "HOL-Library.AList" "HOL-Library.List_Lexorder" "HOL-Library.Char_ord"
begin

section \<open>Announcements endpoints (backend/routers/announcements.py)\<close>

text \<open>
  The router works on two MongoDB collections and answers with Python dictionaries.
  A dictionary is an association list (BSON documents and Python dictionaries both keep
  insertion order, and \<open>AList.update\<close> overwrites in place or appends, as they do).
  Strings are compared with the lexicographic order on \<open>char list\<close>, which is Python's
  order on \<open>str\<close>: code point by code point, a proper prefix first.
\<close>

subsection \<open>Values and documents\<close>

text \<open>
  The fields this router writes hold a \<open>str\<close> or \<open>None\<close> (pydantic's \<open>str\<close> and
  \<open>Optional[str]\<close>). The key \<open>_id\<close>, which every stored document has, is the
  component \<open>oid\<close>: an object identifier in the collection, its \<open>str\<close> in a response.
\<close>

datatype val = VNone | VStr string

record 'i doc =
  oid :: 'i
  entries :: "(string \<times> val) list"

text \<open>
  What an endpoint can raise. \<open>HTTPException\<close> carries status code and detail;
  \<open>InvalidId\<close> is the exception of \<open>ObjectId(...)\<close> on a string it cannot parse;
  \<open>DuplicateKeyError\<close> is the collection refusing a second document with the same
  \<open>_id\<close>; \<open>TypeError\<close> is item assignment on \<open>None\<close>.
\<close>

datatype error =
    HTTPException nat string
  | InvalidId string
  | DuplicateKeyError
  | TypeError

text \<open>
  The framework answers an \<open>HTTPException\<close> with its status code and any other
  exception that leaves the endpoint with 500 (internal server error).
\<close>

fun status_code :: "error \<Rightarrow> nat" where
  "status_code (HTTPException code detail) = code"
| "status_code (InvalidId s) = 500"
| "status_code DuplicateKeyError = 500"
| "status_code TypeError = 500"

definition client_error :: "error \<Rightarrow> bool" where
  "client_error e = (400 \<le> status_code e \<and> status_code e < 500)"

text \<open>\<open>d.get(k)\<close>: the value at \<open>k\<close>, \<open>None\<close> when the key is missing.\<close>

definition dict_get :: "(string \<times> val) list \<Rightarrow> string \<Rightarrow> val" where
  "dict_get d k = (case map_of d k of None \<Rightarrow> VNone | Some v \<Rightarrow> v)"

subsection \<open>Request bodies\<close>

record AnnouncementCreate =
  message :: string
  start_date :: "string option"
  expiration_date :: string
  username :: string

record AnnouncementUpdate =
  message :: "string option"
  start_date :: "string option"
  expiration_date :: "string option"
  username :: string

subsection \<open>The collections\<close>

text \<open>
  A collection is the list of its documents in natural order. \<open>find_one\<close>,
  \<open>update_one\<close> and \<open>delete_one\<close> with the filter \<open>{"_id": k}\<close> act on the first
  document whose \<open>_id\<close> is \<open>k\<close>; \<open>update_one\<close> and \<open>delete_one\<close> also return
  the matched and deleted count.
\<close>

fun find_one :: "'i doc list \<Rightarrow> 'i \<Rightarrow> 'i doc option" where
  "find_one [] k = None"
| "find_one (d # ds) k = (if oid d = k then Some d else find_one ds k)"

text \<open>
  \<open>insert_one\<close> on a document without \<open>_id\<close>: the driver gives it the fresh
  identifier \<open>new_id\<close> (the value of \<open>ObjectId()\<close>, a parameter here); the unique
  index on \<open>_id\<close> refuses an identifier already in the collection.
\<close>

definition insert_one ::
    "'i doc list \<Rightarrow> 'i \<Rightarrow> (string \<times> val) list \<Rightarrow> error + ('i \<times> 'i doc list)" where
  "insert_one coll new_id document =
     (if new_id \<in> set (map oid coll) then Inl DuplicateKeyError
      else Inr (new_id, coll @ [\<lparr>oid = new_id, entries = document\<rparr>]))"

text \<open>The update operator \<open>$set\<close>: every pair of \<open>update_data\<close> is written to the document.\<close>

definition set_fields :: "(string \<times> val) list \<Rightarrow> (string \<times> val) list \<Rightarrow> (string \<times> val) list" where
  "set_fields update_data flds = fold (\<lambda>(k, v). AList.update k v) update_data flds"

fun update_one :: "'i doc list \<Rightarrow> 'i \<Rightarrow> (string \<times> val) list \<Rightarrow> nat \<times> 'i doc list" where
  "update_one [] k update_data = (0, [])"
| "update_one (d # ds) k update_data =
     (if oid d = k then (1, d\<lparr>entries := set_fields update_data (entries d)\<rparr> # ds)
      else (case update_one ds k update_data of (n, ds') \<Rightarrow> (n, d # ds')))"

fun delete_one :: "'i doc list \<Rightarrow> 'i \<Rightarrow> nat \<times> 'i doc list" where
  "delete_one [] k = (0, [])"
| "delete_one (d # ds) k =
     (if oid d = k then (1, ds)
      else (case delete_one ds k of (n, ds') \<Rightarrow> (n, d # ds')))"

record 'k database =
  announcements_collection :: "'k doc list"
  teachers_collection :: "string doc list"

subsection \<open>GET /announcements/active\<close>

text \<open>
  The two tests of the loop body. \<open>a.get(k) and a[k] < now\<close> holds when the value is
  a non-empty string (\<open>None\<close> and the empty string are falsy) that is smaller than
  \<open>now\<close>; the comparison is only evaluated on a truthy value, which is a string.
\<close>

definition expired :: "'i doc \<Rightarrow> string \<Rightarrow> bool" where
  "expired announcement now =
     (case dict_get (entries announcement) ''expiration_date'' of
        VNone \<Rightarrow> False
      | VStr e \<Rightarrow> e \<noteq> [] \<and> e < now)"

definition not_started :: "'i doc \<Rightarrow> string \<Rightarrow> bool" where
  "not_started announcement now =
     (case dict_get (entries announcement) ''start_date'' of
        VNone \<Rightarrow> False
      | VStr s \<Rightarrow> s \<noteq> [] \<and> now < s)"

text \<open>\<open>announcement["_id"] = str(announcement["_id"])\<close>\<close>

definition render :: "('k \<Rightarrow> string) \<Rightarrow> 'k doc \<Rightarrow> string doc" where
  "render str announcement = \<lparr>oid = str (oid announcement), entries = entries announcement\<rparr>"

text \<open>The \<open>for\<close> loop, with the list \<open>active_announcements\<close> it appends to.\<close>

fun active_loop ::
    "('k \<Rightarrow> string) \<Rightarrow> string \<Rightarrow> 'k doc list \<Rightarrow> string doc list \<Rightarrow> string doc list" where
  "active_loop str now [] active_announcements = active_announcements"
| "active_loop str now (announcement # announcements) active_announcements =
     (if expired announcement now then active_loop str now announcements active_announcements
      else if not_started announcement now then
        active_loop str now announcements active_announcements
      else active_loop str now announcements
             (active_announcements @ [render str announcement]))"

text \<open>\<open>now\<close> is the value of \<open>datetime.now().isoformat()\<close>.\<close>

definition get_active_announcements ::
    "('k \<Rightarrow> string) \<Rightarrow> string \<Rightarrow> 'k database \<Rightarrow> string doc list" where
  "get_active_announcements str now db =
     active_loop str now (announcements_collection db) []"

subsection \<open>GET /announcements/all\<close>

definition get_all_announcements :: "('k \<Rightarrow> string) \<Rightarrow> 'k database \<Rightarrow> string doc list" where
  "get_all_announcements str db = map (render str) (announcements_collection db)"

subsection \<open>POST /announcements/\<close>

definition create_announcement ::
    "('k \<Rightarrow> string) \<Rightarrow> string \<Rightarrow> 'k \<Rightarrow> AnnouncementCreate \<Rightarrow> 'k database
       \<Rightarrow> (error + string doc) \<times> 'k database" where
  "create_announcement str now new_id announcement db =
     (case find_one (teachers_collection db) (AnnouncementCreate.username announcement) of
        None \<Rightarrow> (Inl (HTTPException 401 ''Unauthorized''), db)
      | Some teacher \<Rightarrow>
          (let new_announcement =
                 [(''message'', VStr (AnnouncementCreate.message announcement)),
                  (''start_date'',
                     (case AnnouncementCreate.start_date announcement of
                        None \<Rightarrow> VNone | Some s \<Rightarrow> VStr s)),
                  (''expiration_date'', VStr (AnnouncementCreate.expiration_date announcement)),
                  (''created_by'', VStr (AnnouncementCreate.username announcement)),
                  (''created_at'', VStr now)]
           in case insert_one (announcements_collection db) new_id new_announcement of
                Inl e \<Rightarrow> (Inl e, db)
              | Inr (inserted_id, coll) \<Rightarrow>
                  (Inr \<lparr>oid = str inserted_id, entries = new_announcement\<rparr>,
                   db\<lparr>announcements_collection := coll\<rparr>)))"

subsection \<open>PUT /announcements/{announcement_id}\<close>

definition build_update_data :: "AnnouncementUpdate \<Rightarrow> (string \<times> val) list" where
  "build_update_data announcement =
     (let update_data = [];
          update_data = (case AnnouncementUpdate.message announcement of
                           None \<Rightarrow> update_data
                         | Some m \<Rightarrow> AList.update ''message'' (VStr m) update_data);
          update_data = (case AnnouncementUpdate.start_date announcement of
                           None \<Rightarrow> update_data
                         | Some s \<Rightarrow> AList.update ''start_date'' (VStr s) update_data);
          update_data = (case AnnouncementUpdate.expiration_date announcement of
                           None \<Rightarrow> update_data
                         | Some e \<Rightarrow> AList.update ''expiration_date'' (VStr e) update_data)
      in update_data)"

text \<open>
  \<open>ObjectId\<close> is the parser of the identifier (\<open>None\<close> where it raises \<open>InvalidId\<close>)
  and \<open>str\<close> its rendering; both belong to the BSON library and are parameters.
\<close>

definition update_announcement ::
    "(string \<Rightarrow> 'k option) \<Rightarrow> ('k \<Rightarrow> string) \<Rightarrow> string \<Rightarrow> AnnouncementUpdate \<Rightarrow> 'k database
       \<Rightarrow> (error + string doc) \<times> 'k database" where
  "update_announcement ObjectId str announcement_id announcement db =
     (case find_one (teachers_collection db) (AnnouncementUpdate.username announcement) of
        None \<Rightarrow> (Inl (HTTPException 401 ''Unauthorized''), db)
      | Some teacher \<Rightarrow>
          (let update_data = build_update_data announcement in
           if update_data = [] then (Inl (HTTPException 400 ''No fields to update''), db)
           else
             (case ObjectId announcement_id of
                None \<Rightarrow> (Inl (InvalidId announcement_id), db)
              | Some k \<Rightarrow>
                  (case update_one (announcements_collection db) k update_data of
                     (matched_count, coll) \<Rightarrow>
                       (let db' = db\<lparr>announcements_collection := coll\<rparr> in
                        if matched_count = 0 then
                          (Inl (HTTPException 404 ''Announcement not found''), db')
                        else
                          (case find_one coll k of
                             None \<Rightarrow> (Inl TypeError, db')
                           | Some updated \<Rightarrow> (Inr (render str updated), db')))))))"

subsection \<open>DELETE /announcements/{announcement_id}\<close>

text \<open>The query parameter \<open>username\<close> is \<open>user\<close> here.\<close>

definition delete_announcement ::
    "(string \<Rightarrow> 'k option) \<Rightarrow> string \<Rightarrow> string \<Rightarrow> 'k database
       \<Rightarrow> (error + (string \<times> string) list) \<times> 'k database" where
  "delete_announcement ObjectId announcement_id user db =
     (case find_one (teachers_collection db) user of
        None \<Rightarrow> (Inl (HTTPException 401 ''Unauthorized''), db)
      | Some teacher \<Rightarrow>
          (case ObjectId announcement_id of
             None \<Rightarrow> (Inl (InvalidId announcement_id), db)
           | Some k \<Rightarrow>
               (case delete_one (announcements_collection db) k of
                  (deleted_count, coll) \<Rightarrow>
                    (let db' = db\<lparr>announcements_collection := coll\<rparr> in
                     if deleted_count = 0 then
                       (Inl (HTTPException 404 ''Announcement not found''), db')
                     else (Inr [(''message'', ''Announcement deleted successfully'')], db')))))"

subsection \<open>An instance of the identifier parser\<close>

text \<open>
  Object identifiers written as 24 hexadecimal digits, kept in lower case: the instance
  the examples below run on. It accepts exactly the strings of 24 hexadecimal digits; the
  library's parser also takes some 24-character strings with blanks between the bytes,
  which no example uses. The theorems hold for every parser.
\<close>

definition is_hex :: "char \<Rightarrow> bool" where
  "is_hex c = (c \<in> set ''0123456789abcdefABCDEF'')"

definition lower_hex :: "char \<Rightarrow> char" where
  "lower_hex c =
     (if c = CHR ''A'' then CHR ''a'' else if c = CHR ''B'' then CHR ''b''
      else if c = CHR ''C'' then CHR ''c'' else if c = CHR ''D'' then CHR ''d''
      else if c = CHR ''E'' then CHR ''e'' else if c = CHR ''F'' then CHR ''f'' else c)"

definition hex_ObjectId :: "string \<Rightarrow> string option" where
  "hex_ObjectId s =
     (if length s = 24 \<and> list_all is_hex s then Some (map lower_hex s) else None)"

definition hex_str :: "string \<Rightarrow> string" where
  "hex_str k = k"

subsection \<open>The active window, as a predicate\<close>

text \<open>
  A field is absent when the document has no such key or holds \<open>None\<close> there.
  \<open>spec_active\<close> is the window as the specification words it: expiration absent or
  not before \<open>now\<close>, and start absent or not after \<open>now\<close>.
\<close>

definition spec_active :: "string \<Rightarrow> 'i doc \<Rightarrow> bool" where
  "spec_active now a =
     ((case dict_get (entries a) ''expiration_date'' of VNone \<Rightarrow> True | VStr e \<Rightarrow> now \<le> e) \<and>
      (case dict_get (entries a) ''start_date'' of VNone \<Rightarrow> True | VStr s \<Rightarrow> s \<le> now))"

text \<open>\<open>in_window\<close> also lets an empty expiration string through.\<close>

definition in_window :: "string \<Rightarrow> 'i doc \<Rightarrow> bool" where
  "in_window now a =
     ((case dict_get (entries a) ''expiration_date'' of
         VNone \<Rightarrow> True | VStr e \<Rightarrow> e = [] \<or> now \<le> e) \<and>
      (case dict_get (entries a) ''start_date'' of VNone \<Rightarrow> True | VStr s \<Rightarrow> s \<le> now))"

subsection \<open>The fields a request supplies\<close>

text \<open>
  The value an update request carries for the field \<open>f\<close>, if it carries one. Only
  \<open>message\<close>, \<open>start_date\<close> and \<open>expiration_date\<close> can be supplied.
\<close>

definition supplied :: "AnnouncementUpdate \<Rightarrow> string \<Rightarrow> val option" where
  "supplied announcement f =
     (if f = ''message'' then map_option VStr (AnnouncementUpdate.message announcement)
      else if f = ''start_date'' then map_option VStr (AnnouncementUpdate.start_date announcement)
      else if f = ''expiration_date'' then
        map_option VStr (AnnouncementUpdate.expiration_date announcement)
      else None)"

subsection \<open>A small database\<close>

text \<open>
  One announcement, created by \<open>t1\<close>, and two registered teachers: the data the
  examples below run on.
\<close>

definition exam_friday :: "(string \<times> val) list" where
  "exam_friday =
     [(''message'', VStr ''Exam Friday''), (''start_date'', VNone),
      (''expiration_date'', VStr ''2025-01-10T00:00:00''), (''created_by'', VStr ''t1''),
      (''created_at'', VStr ''2025-01-01T08:00:00'')]"

definition school_db :: "string database" where
  "school_db =
     \<lparr>announcements_collection = [\<lparr>oid = ''65a1b2c3d4e5f60718293a4b'', entries = exam_friday\<rparr>],
      teachers_collection = [\<lparr>oid = ''t1'', entries = []\<rparr>, \<lparr>oid = ''t2'', entries = []\<rparr>]\<rparr>"

section \<open>Properties\<close>

subsection \<open>The loop is a filter\<close>

lemma active_loop_filter:
  "active_loop str now as acc =
     acc @ map (render str) (filter (\<lambda>a. \<not> expired a now \<and> \<not> not_started a now) as)"
  by (induction as arbitrary: acc) simp_all

lemma in_window_iff: "in_window now a \<longleftrightarrow> \<not> expired a now \<and> \<not> not_started a now"
  by (auto simp: in_window_def expired_def not_started_def split: val.splits)

lemma active_loop_in_window:
  "active_loop str now as acc = acc @ map (render str) (filter (in_window now) as)"
  by (induction as arbitrary: acc) (simp_all add: in_window_iff)

subsection \<open>Lookups in a collection\<close>

lemma find_one_None_iff: "find_one ds k = None \<longleftrightarrow> k \<notin> oid ` set ds"
  by (induction ds) auto

lemma find_one_SomeD: "find_one ds k = Some d \<Longrightarrow> oid d = k \<and> d \<in> set ds"
  by (induction ds) (auto split: if_splits)

subsection \<open>Listing the active announcements\<close>

text \<open>
  Claim C1, as amended. For every collection and every \<open>now\<close>, list-active returns, in
  the collection's order and with \<open>_id\<close> rendered as a string, exactly the documents
  with (\<open>expiration_date\<close> absent, \<open>None\<close> or the empty string, or
  \<open>expiration_date \<ge> now\<close>) and (\<open>start_date\<close> absent or \<open>None\<close>, or
  \<open>start_date \<le> now\<close>), under string comparison. Both bounds are inclusive.
\<close>

theorem get_active_announcements_window:
  "get_active_announcements str now db =
     map (render str) (filter (in_window now) (announcements_collection db))"
  by (simp add: get_active_announcements_def active_loop_in_window)

text \<open>
  At \<open>now\<close> = 2025-01-05T00:00:00: a document expiring exactly now and one starting
  exactly now are listed, one expired a second ago and one starting a second later are
  not, and a document without dates is listed.
\<close>

theorem get_active_announcements_window_witness:
  "get_active_announcements hex_str ''2025-01-05T00:00:00''
     \<lparr>announcements_collection =
        [\<lparr>oid = ''000000000000000000000001'',
          entries = [(''message'', VStr ''ends now''), (''start_date'', VNone),
                     (''expiration_date'', VStr ''2025-01-05T00:00:00'')]\<rparr>,
         \<lparr>oid = ''000000000000000000000002'',
          entries = [(''message'', VStr ''starts now''),
                     (''start_date'', VStr ''2025-01-05T00:00:00''),
                     (''expiration_date'', VStr ''2025-01-10T00:00:00'')]\<rparr>,
         \<lparr>oid = ''000000000000000000000003'',
          entries = [(''message'', VStr ''over''), (''start_date'', VNone),
                     (''expiration_date'', VStr ''2025-01-04T23:59:59'')]\<rparr>,
         \<lparr>oid = ''000000000000000000000004'',
          entries = [(''message'', VStr ''later''),
                     (''start_date'', VStr ''2025-01-05T00:00:01''),
                     (''expiration_date'', VStr ''2025-01-10T00:00:00'')]\<rparr>,
         \<lparr>oid = ''000000000000000000000005'',
          entries = [(''message'', VStr ''no dates'')]\<rparr>],
      teachers_collection = []\<rparr>
   = [\<lparr>oid = ''000000000000000000000001'',
          entries = [(''message'', VStr ''ends now''), (''start_date'', VNone),
                     (''expiration_date'', VStr ''2025-01-05T00:00:00'')]\<rparr>,
      \<lparr>oid = ''000000000000000000000002'',
          entries = [(''message'', VStr ''starts now''),
                     (''start_date'', VStr ''2025-01-05T00:00:00''),
                     (''expiration_date'', VStr ''2025-01-10T00:00:00'')]\<rparr>,
      \<lparr>oid = ''000000000000000000000005'',
          entries = [(''message'', VStr ''no dates'')]\<rparr>]"
  using get_active_announcements_window [of hex_str "''2025-01-05T00:00:00''"]
  by (simp add: in_window_def dict_get_def render_def hex_str_def)

text \<open>
  Claim C1 as the specification states it fails on a document whose
  \<open>expiration_date\<close> is the empty string: the string is present and smaller than
  \<open>now\<close>, so \<open>spec_active\<close> rejects the document, and the endpoint lists it.
\<close>

theorem list_active_empty_expiration_counterexample:
  "get_active_announcements hex_str ''2025-01-05T00:00:00''
     \<lparr>announcements_collection =
        [\<lparr>oid = ''65a1b2c3d4e5f60718293a4b'',
          entries = [(''message'', VStr ''Exam Friday''), (''start_date'', VNone),
                     (''expiration_date'', VStr ''''), (''created_by'', VStr ''t1''),
                     (''created_at'', VStr ''2025-01-01T00:00:00'')]\<rparr>],
      teachers_collection = []\<rparr>
   \<noteq> map (render hex_str)
       (filter (spec_active ''2025-01-05T00:00:00'')
          [\<lparr>oid = ''65a1b2c3d4e5f60718293a4b'',
            entries = [(''message'', VStr ''Exam Friday''), (''start_date'', VNone),
                       (''expiration_date'', VStr ''''), (''created_by'', VStr ''t1''),
                       (''created_at'', VStr ''2025-01-01T00:00:00'')]\<rparr>])"
  by (simp add: get_active_announcements_def expired_def not_started_def dict_get_def
      spec_active_def render_def)

subsection \<open>Collections\<close>

lemma registered_find_one:
  "u \<in> oid ` set ds \<Longrightarrow> \<exists>teacher. find_one ds u = Some teacher"
  using find_one_None_iff [of ds u] by (cases "find_one ds u") auto

lemma update_one_miss: "k \<notin> oid ` set ds \<Longrightarrow> update_one ds k upd = (0, ds)"
  by (induction ds) auto

lemma update_one_hit:
  "find_one ds k = Some d \<Longrightarrow>
     \<exists>i < length ds. ds ! i = d \<and>
       update_one ds k upd = (1, ds[i := d\<lparr>entries := set_fields upd (entries d)\<rparr>])"
proof (induction ds)
  case Nil
  then show ?case by simp
next
  case (Cons x ds)
  show ?case
  proof (cases "oid x = k")
    case True
    with Cons.prems have "x = d" by simp
    with True have "(x # ds) ! 0 = d \<and>
        update_one (x # ds) k upd = (1, (x # ds)[0 := d\<lparr>entries := set_fields upd (entries d)\<rparr>])"
      by simp
    then show ?thesis by blast
  next
    case False
    with Cons.prems have "find_one ds k = Some d" by simp
    from Cons.IH [OF this] obtain i where i: "i < length ds" "ds ! i = d"
      "update_one ds k upd = (1, ds[i := d\<lparr>entries := set_fields upd (entries d)\<rparr>])"
      by blast
    with False have "Suc i < length (x # ds) \<and> (x # ds) ! Suc i = d \<and>
        update_one (x # ds) k upd =
          (1, (x # ds)[Suc i := d\<lparr>entries := set_fields upd (entries d)\<rparr>])"
      by simp
    then show ?thesis by blast
  qed
qed

lemma find_one_update_one:
  "find_one ds k = Some d \<Longrightarrow>
     find_one (snd (update_one ds k upd)) k = Some (d\<lparr>entries := set_fields upd (entries d)\<rparr>)"
  by (induction ds) (auto split: prod.splits)

lemma find_one_update_one_other:
  "k' \<noteq> k \<Longrightarrow> find_one (snd (update_one ds k upd)) k' = find_one ds k'"
  by (induction ds) (auto split: prod.splits)

lemma oids_update_one: "map oid (snd (update_one ds k upd)) = map oid ds"
  by (induction ds) (auto split: prod.splits)

lemma delete_one_miss: "k \<notin> oid ` set ds \<Longrightarrow> delete_one ds k = (0, ds)"
  by (induction ds) auto

lemma delete_one_hit: "k \<in> oid ` set ds \<Longrightarrow> fst (delete_one ds k) = 1"
  by (induction ds) (auto split: prod.splits)

lemma oids_delete_one: "map oid (snd (delete_one ds k)) = remove1 k (map oid ds)"
  by (induction ds) (auto split: prod.splits)

lemma delete_one_removes:
  "distinct (map oid ds) \<Longrightarrow> k \<notin> oid ` set (snd (delete_one ds k))"
proof -
  assume d: "distinct (map oid ds)"
  have "set (map oid (snd (delete_one ds k))) = set (map oid ds) - {k}"
    using d by (simp only: oids_delete_one set_remove1_eq)
  then show ?thesis by auto
qed

subsection \<open>The update document\<close>

lemma build_update_data_Nil:
  "build_update_data ann = [] \<longleftrightarrow>
     AnnouncementUpdate.message ann = None \<and> AnnouncementUpdate.start_date ann = None \<and>
     AnnouncementUpdate.expiration_date ann = None"
  by (simp add: build_update_data_def split: option.splits)

lemma nonempty_patch:
  "AnnouncementUpdate.message ann \<noteq> None \<or> AnnouncementUpdate.start_date ann \<noteq> None \<or>
   AnnouncementUpdate.expiration_date ann \<noteq> None \<Longrightarrow> build_update_data ann \<noteq> []"
  by (simp add: build_update_data_Nil)

lemma map_of_set_fields:
  "map_of (set_fields upd es) = fold (\<lambda>(k, v) m. m(k \<mapsto> v)) upd (map_of es)"
  unfolding set_fields_def
  by (induction upd arbitrary: es) (auto simp: update_conv')

lemma map_of_patched:
  "map_of (set_fields (build_update_data ann) es) f =
     (case supplied ann f of None \<Rightarrow> map_of es f | Some v \<Rightarrow> Some v)"
  by (cases "AnnouncementUpdate.message ann"; cases "AnnouncementUpdate.start_date ann";
      cases "AnnouncementUpdate.expiration_date ann")
     (simp_all add: map_of_set_fields build_update_data_def supplied_def)

lemma keys_set_fields: "fst ` set es \<subseteq> fst ` set (set_fields upd es)"
  unfolding set_fields_def
proof (induction upd arbitrary: es)
  case Nil
  then show ?case by simp
next
  case (Cons p upd)
  obtain k v where p: "p = (k, v)" by (cases p)
  have "fst ` set es \<subseteq> fst ` set (AList.update k v es)"
    by (auto simp: dom_update)
  also have "\<dots> \<subseteq> fst ` set (fold (\<lambda>(k, v). AList.update k v) upd (AList.update k v es))"
    by (rule Cons.IH)
  finally show ?case by (simp add: p)
qed

subsection \<open>The outcomes of update and delete\<close>

lemma update_announcement_found:
  assumes reg: "AnnouncementUpdate.username ann \<in> oid ` set (teachers_collection db)"
    and ne: "build_update_data ann \<noteq> []"
    and parse: "ObjectId announcement_id = Some k"
    and found: "find_one (announcements_collection db) k = Some d"
  shows "update_announcement ObjectId str announcement_id ann db =
           (Inr (render str (d\<lparr>entries := set_fields (build_update_data ann) (entries d)\<rparr>)),
            db\<lparr>announcements_collection :=
                 snd (update_one (announcements_collection db) k (build_update_data ann))\<rparr>)"
proof -
  from registered_find_one [OF reg] obtain teacher
    where t: "find_one (teachers_collection db) (AnnouncementUpdate.username ann) = Some teacher"
    by blast
  obtain n coll
    where u: "update_one (announcements_collection db) k (build_update_data ann) = (n, coll)"
    by (cases "update_one (announcements_collection db) k (build_update_data ann)")
  from update_one_hit [OF found, of "build_update_data ann"] u
  have n: "n = 1"
    by auto
  from find_one_update_one [OF found, of "build_update_data ann"] u
  have f: "find_one coll k =
             Some (d\<lparr>entries := set_fields (build_update_data ann) (entries d)\<rparr>)"
    by simp
  show ?thesis
    using t ne parse u n f
    by (simp add: update_announcement_def)
qed

lemma update_announcement_missing:
  assumes reg: "AnnouncementUpdate.username ann \<in> oid ` set (teachers_collection db)"
    and ne: "build_update_data ann \<noteq> []"
    and parse: "ObjectId announcement_id = Some k"
    and missing: "find_one (announcements_collection db) k = None"
  shows "update_announcement ObjectId str announcement_id ann db =
           (Inl (HTTPException 404 ''Announcement not found''), db)"
proof -
  from registered_find_one [OF reg] obtain teacher
    where t: "find_one (teachers_collection db) (AnnouncementUpdate.username ann) = Some teacher"
    by blast
  from missing have "k \<notin> oid ` set (announcements_collection db)"
    by (simp add: find_one_None_iff)
  then have "update_one (announcements_collection db) k (build_update_data ann) =
               (0, announcements_collection db)"
    by (rule update_one_miss)
  then show ?thesis
    using t ne parse by (simp add: update_announcement_def)
qed

lemma update_announcement_success:
  assumes "update_announcement ObjectId str announcement_id ann db = (Inr r, db')"
  shows "\<exists>k d. AnnouncementUpdate.username ann \<in> oid ` set (teachers_collection db) \<and>
           build_update_data ann \<noteq> [] \<and> ObjectId announcement_id = Some k \<and>
           find_one (announcements_collection db) k = Some d"
proof -
  from assms obtain teacher
    where t: "find_one (teachers_collection db) (AnnouncementUpdate.username ann) = Some teacher"
    by (cases "find_one (teachers_collection db) (AnnouncementUpdate.username ann)")
       (auto simp: update_announcement_def)
  then have reg: "AnnouncementUpdate.username ann \<in> oid ` set (teachers_collection db)"
    using find_one_None_iff [of "teachers_collection db" "AnnouncementUpdate.username ann"]
    by auto
  from assms t have ne: "build_update_data ann \<noteq> []"
    by (auto simp: update_announcement_def)
  from assms t ne obtain k where parse: "ObjectId announcement_id = Some k"
    by (cases "ObjectId announcement_id") (auto simp: update_announcement_def)
  have "find_one (announcements_collection db) k \<noteq> None"
  proof
    assume "find_one (announcements_collection db) k = None"
    from update_announcement_missing
      [where ObjectId = ObjectId and announcement_id = announcement_id and str = str,
        OF reg ne parse this] assms
    show False by simp
  qed
  with reg ne parse show ?thesis by auto
qed

lemma delete_announcement_found:
  assumes reg: "user \<in> oid ` set (teachers_collection db)"
    and parse: "ObjectId announcement_id = Some k"
    and found: "k \<in> oid ` set (announcements_collection db)"
  shows "delete_announcement ObjectId announcement_id user db =
           (Inr [(''message'', ''Announcement deleted successfully'')],
            db\<lparr>announcements_collection := snd (delete_one (announcements_collection db) k)\<rparr>)"
proof -
  from registered_find_one [OF reg] obtain teacher
    where t: "find_one (teachers_collection db) user = Some teacher"
    by blast
  obtain n coll where d: "delete_one (announcements_collection db) k = (n, coll)"
    by (cases "delete_one (announcements_collection db) k")
  with delete_one_hit [OF found] have "n = 1" by simp
  with t parse d show ?thesis
    by (simp add: delete_announcement_def)
qed

lemma delete_announcement_missing:
  assumes reg: "user \<in> oid ` set (teachers_collection db)"
    and parse: "ObjectId announcement_id = Some k"
    and missing: "k \<notin> oid ` set (announcements_collection db)"
  shows "delete_announcement ObjectId announcement_id user db =
           (Inl (HTTPException 404 ''Announcement not found''), db)"
proof -
  from registered_find_one [OF reg] obtain teacher
    where t: "find_one (teachers_collection db) user = Some teacher"
    by blast
  with parse delete_one_miss [OF missing] show ?thesis
    by (simp add: delete_announcement_def)
qed

subsection \<open>Identifiers stay distinct\<close>

text \<open>
  The store keeps the identifiers of a collection distinct. Every endpoint preserves
  this, whatever its outcome.
\<close>

lemma distinct_insert_one:
  "distinct (map oid coll) \<Longrightarrow> insert_one coll new_id document = Inr (k, coll') \<Longrightarrow>
     distinct (map oid coll')"
  by (auto simp: insert_one_def split: if_splits)

lemma distinct_update_one:
  "distinct (map oid ds) \<Longrightarrow> distinct (map oid (snd (update_one ds k upd)))"
  by (simp add: oids_update_one)

lemma distinct_delete_one:
  "distinct (map oid ds) \<Longrightarrow> distinct (map oid (snd (delete_one ds k)))"
  by (simp add: oids_delete_one)

lemma distinct_create_announcement:
  "distinct (map oid (announcements_collection db)) \<Longrightarrow>
     distinct (map oid (announcements_collection
       (snd (create_announcement str now new_id announcement db))))"
  by (auto simp: create_announcement_def insert_one_def Let_def split: option.splits)

lemma distinct_update_announcement:
  "distinct (map oid (announcements_collection db)) \<Longrightarrow>
     distinct (map oid (announcements_collection
       (snd (update_announcement ObjectId str announcement_id announcement db))))"
  using oids_update_one [of "announcements_collection db"]
  by (auto simp: update_announcement_def Let_def split: option.splits prod.splits)
     (metis snd_conv)+

lemma distinct_delete_announcement:
  "distinct (map oid (announcements_collection db)) \<Longrightarrow>
     distinct (map oid (announcements_collection
       (snd (delete_announcement ObjectId announcement_id user db))))"
  using distinct_delete_one [of "announcements_collection db"]
  by (auto simp: delete_announcement_def Let_def split: option.splits prod.splits)
     (metis snd_conv)+

subsection \<open>Membership in the active list\<close>

lemma in_window_render: "in_window t (render str a) = in_window t a"
  by (simp add: in_window_def render_def)

lemma get_active_member:
  "r \<in> set (get_active_announcements str now db) \<longleftrightarrow>
     (\<exists>a \<in> set (announcements_collection db). r = render str a \<and> in_window now a)"
  by (auto simp: get_active_announcements_def active_loop_in_window)

subsection \<open>Creating with an unknown author\<close>

text \<open>
  Claim C2. When the author is not in the membership registry, create fails with
  Unauthorized (status 401) and the database comes back unchanged: nothing is inserted.
\<close>

theorem create_unknown_author_unauthorized:
  assumes "AnnouncementCreate.username announcement \<notin> oid ` set (teachers_collection db)"
  shows "create_announcement str now new_id announcement db =
           (Inl (HTTPException 401 ''Unauthorized''), db)"
proof -
  from assms
  have "find_one (teachers_collection db) (AnnouncementCreate.username announcement) = None"
    by (simp add: find_one_None_iff)
  then show ?thesis
    by (simp add: create_announcement_def)
qed

text \<open>
  \<open>mallory\<close> is not a teacher of the example database.
\<close>

theorem create_unknown_author_unauthorized_witness:
  "''mallory'' \<notin> oid ` set (teachers_collection school_db) \<and>
   create_announcement hex_str ''2025-01-02T09:00:00'' ''65a1b2c3d4e5f60718293a4c''
     \<lparr>AnnouncementCreate.message = ''Free pizza'', start_date = None,
      expiration_date = ''2025-01-03T00:00:00'', username = ''mallory''\<rparr> school_db
   = (Inl (HTTPException 401 ''Unauthorized''), school_db)"
proof -
  let ?ann = "\<lparr>AnnouncementCreate.message = ''Free pizza'', start_date = None,
               expiration_date = ''2025-01-03T00:00:00'', username = ''mallory''\<rparr>"
  have h: "AnnouncementCreate.username ?ann \<notin> oid ` set (teachers_collection school_db)"
    by (simp add: school_db_def)
  from create_unknown_author_unauthorized [OF h] h show ?thesis
    by simp
qed

subsection \<open>Updating with no field\<close>

text \<open>
  Claim C3. An update by a registered author that supplies none of \<open>message\<close>,
  \<open>start_date\<close> and \<open>expiration_date\<close> fails with BadRequest (status 400),
  whatever the identifier is, and the database, the targeted document included, is unchanged.
\<close>

theorem update_empty_patch_bad_request:
  assumes "AnnouncementUpdate.username announcement \<in> oid ` set (teachers_collection db)"
    and "AnnouncementUpdate.message announcement = None"
    and "AnnouncementUpdate.start_date announcement = None"
    and "AnnouncementUpdate.expiration_date announcement = None"
  shows "update_announcement ObjectId str announcement_id announcement db =
           (Inl (HTTPException 400 ''No fields to update''), db)"
proof -
  from assms(1) obtain teacher
    where "find_one (teachers_collection db) (AnnouncementUpdate.username announcement) = Some teacher"
    using find_one_None_iff [of "teachers_collection db"] by fastforce
  moreover have "build_update_data announcement = []"
    using assms(2-4) by (simp add: build_update_data_Nil)
  ultimately show ?thesis
    by (simp add: update_announcement_def)
qed

text \<open>
  \<open>t1\<close> sends an empty update for the stored announcement.
\<close>

theorem update_empty_patch_bad_request_witness:
  "''t1'' \<in> oid ` set (teachers_collection school_db) \<and>
   update_announcement hex_ObjectId hex_str ''65a1b2c3d4e5f60718293a4b''
     \<lparr>AnnouncementUpdate.message = None, start_date = None, expiration_date = None,
      username = ''t1''\<rparr> school_db
   = (Inl (HTTPException 400 ''No fields to update''), school_db)"
proof -
  let ?ann = "\<lparr>AnnouncementUpdate.message = None, start_date = None, expiration_date = None,
               username = ''t1''\<rparr>"
  have h: "AnnouncementUpdate.username ?ann \<in> oid ` set (teachers_collection school_db)"
    by (simp add: school_db_def)
  from update_empty_patch_bad_request [of ?ann school_db, OF h] h show ?thesis
    by simp
qed

subsection \<open>Updating a document\<close>

text \<open>
  Claim C4. Take an update by a registered author that supplies at least one field, with
  an identifier that parses to the key \<open>k\<close>. If the collection has a document with
  key \<open>k\<close>, the first such document \<open>d\<close> is replaced in place by \<open>d'\<close>, in
  which every supplied field holds the supplied string and every other field is as in
  \<open>d\<close>; the answer is the document with the rendering of \<open>k\<close> as identifier and
  the fields of \<open>d'\<close>, and \<open>d'\<close> is what the collection then holds under \<open>k\<close>.
  If no document has key \<open>k\<close>, the update fails with NotFound (status 404) and the
  database is unchanged.
\<close>

theorem update_patches_supplied_fields:
  assumes reg: "AnnouncementUpdate.username ann \<in> oid ` set (teachers_collection db)"
    and ne: "AnnouncementUpdate.message ann \<noteq> None \<or> AnnouncementUpdate.start_date ann \<noteq> None \<or>
             AnnouncementUpdate.expiration_date ann \<noteq> None"
    and parse: "ObjectId announcement_id = Some k"
  shows "case find_one (announcements_collection db) k of
           None \<Rightarrow>
             update_announcement ObjectId str announcement_id ann db =
               (Inl (HTTPException 404 ''Announcement not found''), db)
         | Some d \<Rightarrow>
             (\<exists>i d'. i < length (announcements_collection db) \<and>
                announcements_collection db ! i = d \<and> oid d' = k \<and>
                (\<forall>f. map_of (entries d') f =
                       (case supplied ann f of None \<Rightarrow> map_of (entries d) f | Some v \<Rightarrow> Some v)) \<and>
                update_announcement ObjectId str announcement_id ann db =
                  (Inr \<lparr>oid = str k, entries = entries d'\<rparr>,
                   db\<lparr>announcements_collection := (announcements_collection db)[i := d']\<rparr>) \<and>
                find_one ((announcements_collection db)[i := d']) k = Some d')"
proof (cases "find_one (announcements_collection db) k")
  case None
  with update_announcement_missing
    [where ObjectId = ObjectId and announcement_id = announcement_id and str = str,
      OF reg nonempty_patch [OF ne] parse]
  show ?thesis by simp
next
  case (Some d)
  let ?upd = "build_update_data ann"
  let ?d' = "d\<lparr>entries := set_fields ?upd (entries d)\<rparr>"
  from update_one_hit [OF Some, of ?upd] obtain i
    where i: "i < length (announcements_collection db)" "announcements_collection db ! i = d"
      and u: "update_one (announcements_collection db) k ?upd =
                (1, (announcements_collection db)[i := ?d'])"
    by blast
  from find_one_SomeD [OF Some] have k: "oid ?d' = k" by simp
  have m: "\<forall>f. map_of (entries ?d') f =
             (case supplied ann f of None \<Rightarrow> map_of (entries d) f | Some v \<Rightarrow> Some v)"
    by (simp add: map_of_patched)
  have shape: "render str ?d' = \<lparr>oid = str k, entries = entries ?d'\<rparr>"
    using k by (simp add: render_def)
  from update_announcement_found
    [where ObjectId = ObjectId and announcement_id = announcement_id and str = str,
      OF reg nonempty_patch [OF ne] parse Some] u shape
  have r: "update_announcement ObjectId str announcement_id ann db =
             (Inr \<lparr>oid = str k, entries = entries ?d'\<rparr>,
              db\<lparr>announcements_collection := (announcements_collection db)[i := ?d']\<rparr>)"
    by simp
  from find_one_update_one [OF Some, of ?upd] u
  have f: "find_one ((announcements_collection db)[i := ?d']) k = Some ?d'"
    by simp
  from i k m r f have "\<exists>i d'. i < length (announcements_collection db) \<and>
                announcements_collection db ! i = d \<and> oid d' = k \<and>
                (\<forall>f. map_of (entries d') f =
                       (case supplied ann f of None \<Rightarrow> map_of (entries d) f | Some v \<Rightarrow> Some v)) \<and>
                update_announcement ObjectId str announcement_id ann db =
                  (Inr \<lparr>oid = str k, entries = entries d'\<rparr>,
                   db\<lparr>announcements_collection := (announcements_collection db)[i := d']\<rparr>) \<and>
                find_one ((announcements_collection db)[i := d']) k = Some d'"
    by blast
  with Some show ?thesis by simp
qed

text \<open>
  \<open>t1\<close> changes the message of the stored announcement, writing its identifier in
  upper case: the answer and the database after the update, in full; the other fields
  stay.
\<close>

theorem update_patches_supplied_fields_witness:
  "''t1'' \<in> oid ` set (teachers_collection school_db) \<and>
   hex_ObjectId ''65A1B2C3D4E5F60718293A4B'' = Some ''65a1b2c3d4e5f60718293a4b'' \<and>
   find_one (announcements_collection school_db) ''65a1b2c3d4e5f60718293a4b'' =
     Some \<lparr>oid = ''65a1b2c3d4e5f60718293a4b'', entries = exam_friday\<rparr> \<and>
   update_announcement hex_ObjectId hex_str ''65A1B2C3D4E5F60718293A4B''
     \<lparr>AnnouncementUpdate.message = Some ''Exam Monday'', start_date = None,
      expiration_date = None, username = ''t1''\<rparr> school_db =
     (Inr \<lparr>oid = ''65a1b2c3d4e5f60718293a4b'',
           entries = [(''message'', VStr ''Exam Monday''), (''start_date'', VNone),
                      (''expiration_date'', VStr ''2025-01-10T00:00:00''),
                      (''created_by'', VStr ''t1''),
                      (''created_at'', VStr ''2025-01-01T08:00:00'')]\<rparr>,
      \<lparr>announcements_collection =
         [\<lparr>oid = ''65a1b2c3d4e5f60718293a4b'',
           entries = [(''message'', VStr ''Exam Monday''), (''start_date'', VNone),
                      (''expiration_date'', VStr ''2025-01-10T00:00:00''),
                      (''created_by'', VStr ''t1''),
                      (''created_at'', VStr ''2025-01-01T08:00:00'')]\<rparr>],
       teachers_collection = [\<lparr>oid = ''t1'', entries = []\<rparr>, \<lparr>oid = ''t2'', entries = []\<rparr>]\<rparr>) \<and>
   (\<exists>i d'. i < length (announcements_collection school_db) \<and>
      announcements_collection school_db ! i =
        \<lparr>oid = ''65a1b2c3d4e5f60718293a4b'', entries = exam_friday\<rparr> \<and>
      oid d' = ''65a1b2c3d4e5f60718293a4b'' \<and>
      map_of (entries d') ''message'' = Some (VStr ''Exam Monday'') \<and>
      map_of (entries d') ''expiration_date'' = Some (VStr ''2025-01-10T00:00:00'') \<and>
      map_of (entries d') ''created_by'' = Some (VStr ''t1'') \<and>
      update_announcement hex_ObjectId hex_str ''65A1B2C3D4E5F60718293A4B''
        \<lparr>AnnouncementUpdate.message = Some ''Exam Monday'', start_date = None,
         expiration_date = None, username = ''t1''\<rparr> school_db =
        (Inr \<lparr>oid = ''65a1b2c3d4e5f60718293a4b'', entries = entries d'\<rparr>,
         school_db\<lparr>announcements_collection := (announcements_collection school_db)[i := d']\<rparr>))"
proof -
  let ?ann = "\<lparr>AnnouncementUpdate.message = Some ''Exam Monday'', start_date = None,
               expiration_date = None, username = ''t1''\<rparr>"
  let ?d = "\<lparr>oid = ''65a1b2c3d4e5f60718293a4b'', entries = exam_friday\<rparr>"
  have h1: "AnnouncementUpdate.username ?ann \<in> oid ` set (teachers_collection school_db)"
    by (simp add: school_db_def)
  have h2: "AnnouncementUpdate.message ?ann \<noteq> None \<or> AnnouncementUpdate.start_date ?ann \<noteq> None \<or>
            AnnouncementUpdate.expiration_date ?ann \<noteq> None"
    by simp
  have h3: "hex_ObjectId ''65A1B2C3D4E5F60718293A4B'' = Some ''65a1b2c3d4e5f60718293a4b''"
    by (simp add: hex_ObjectId_def is_hex_def lower_hex_def)
  have f: "find_one (announcements_collection school_db) ''65a1b2c3d4e5f60718293a4b'' = Some ?d"
    by (simp add: school_db_def)
  from update_patches_supplied_fields
    [where ObjectId = hex_ObjectId and announcement_id = "''65A1B2C3D4E5F60718293A4B''"
       and str = hex_str, OF h1 h2 h3] f
  obtain i d' where w: "i < length (announcements_collection school_db)"
      "announcements_collection school_db ! i = ?d" "oid d' = ''65a1b2c3d4e5f60718293a4b''"
      "\<forall>f. map_of (entries d') f =
             (case supplied ?ann f of None \<Rightarrow> map_of (entries ?d) f | Some v \<Rightarrow> Some v)"
      "update_announcement hex_ObjectId hex_str ''65A1B2C3D4E5F60718293A4B'' ?ann school_db =
         (Inr \<lparr>oid = hex_str ''65a1b2c3d4e5f60718293a4b'', entries = entries d'\<rparr>,
          school_db\<lparr>announcements_collection := (announcements_collection school_db)[i := d']\<rparr>)"
    by auto
  from w(4) have m: "map_of (entries d') ''message'' = Some (VStr ''Exam Monday'')"
    and e: "map_of (entries d') ''expiration_date'' = Some (VStr ''2025-01-10T00:00:00'')"
    and b: "map_of (entries d') ''created_by'' = Some (VStr ''t1'')"
    by (simp_all add: supplied_def exam_friday_def)
  have conc: "update_announcement hex_ObjectId hex_str ''65A1B2C3D4E5F60718293A4B'' ?ann school_db =
     (Inr \<lparr>oid = ''65a1b2c3d4e5f60718293a4b'',
           entries = [(''message'', VStr ''Exam Monday''), (''start_date'', VNone),
                      (''expiration_date'', VStr ''2025-01-10T00:00:00''),
                      (''created_by'', VStr ''t1''),
                      (''created_at'', VStr ''2025-01-01T08:00:00'')]\<rparr>,
      \<lparr>announcements_collection =
         [\<lparr>oid = ''65a1b2c3d4e5f60718293a4b'',
           entries = [(''message'', VStr ''Exam Monday''), (''start_date'', VNone),
                      (''expiration_date'', VStr ''2025-01-10T00:00:00''),
                      (''created_by'', VStr ''t1''),
                      (''created_at'', VStr ''2025-01-01T08:00:00'')]\<rparr>],
       teachers_collection = [\<lparr>oid = ''t1'', entries = []\<rparr>, \<lparr>oid = ''t2'', entries = []\<rparr>]\<rparr>)"
    by (simp add: update_announcement_def h3 build_update_data_def set_fields_def render_def
        hex_str_def school_db_def exam_friday_def)
  from w(5) have w5: "update_announcement hex_ObjectId hex_str ''65A1B2C3D4E5F60718293A4B'' ?ann
        school_db =
         (Inr \<lparr>oid = ''65a1b2c3d4e5f60718293a4b'', entries = entries d'\<rparr>,
          school_db\<lparr>announcements_collection := (announcements_collection school_db)[i := d']\<rparr>)"
    by (simp add: hex_str_def)
  from w(1,2,3) m e b w5
  have ex: "\<exists>i d'. i < length (announcements_collection school_db) \<and>
      announcements_collection school_db ! i = ?d \<and>
      oid d' = ''65a1b2c3d4e5f60718293a4b'' \<and>
      map_of (entries d') ''message'' = Some (VStr ''Exam Monday'') \<and>
      map_of (entries d') ''expiration_date'' = Some (VStr ''2025-01-10T00:00:00'') \<and>
      map_of (entries d') ''created_by'' = Some (VStr ''t1'') \<and>
      update_announcement hex_ObjectId hex_str ''65A1B2C3D4E5F60718293A4B'' ?ann school_db =
        (Inr \<lparr>oid = ''65a1b2c3d4e5f60718293a4b'', entries = entries d'\<rparr>,
         school_db\<lparr>announcements_collection := (announcements_collection school_db)[i := d']\<rparr>)"
    by (intro exI [of _ i] exI [of _ d'] conjI)
  from h1 have h1': "''t1'' \<in> oid ` set (teachers_collection school_db)"
    by simp
  from h1' h3 f conc ex show ?thesis
    by (intro conjI)
qed

subsection \<open>What an update leaves alone\<close>

text \<open>
  Claim C5. After a successful update the target document has the same identifier, the
  same \<open>created_by\<close> and \<open>created_at\<close>, the same value in every field the request
  did not supply, and all the keys it had; a field that held a string still holds one.
\<close>

theorem update_frame:
  assumes "update_announcement ObjectId str announcement_id ann db = (Inr r, db')"
  shows "\<exists>k d d'. ObjectId announcement_id = Some k \<and>
           find_one (announcements_collection db) k = Some d \<and>
           find_one (announcements_collection db') k = Some d' \<and>
           r = render str d' \<and> oid d' = oid d \<and>
           map_of (entries d') ''created_by'' = map_of (entries d) ''created_by'' \<and>
           map_of (entries d') ''created_at'' = map_of (entries d) ''created_at'' \<and>
           (\<forall>f. supplied ann f = None \<longrightarrow> map_of (entries d') f = map_of (entries d) f) \<and>
           fst ` set (entries d) \<subseteq> fst ` set (entries d') \<and>
           (\<forall>f. dict_get (entries d) f \<noteq> VNone \<longrightarrow> dict_get (entries d') f \<noteq> VNone)"
proof -
  from update_announcement_success [OF assms] obtain k d
    where reg: "AnnouncementUpdate.username ann \<in> oid ` set (teachers_collection db)"
      and ne: "build_update_data ann \<noteq> []"
      and parse: "ObjectId announcement_id = Some k"
      and found: "find_one (announcements_collection db) k = Some d"
    by blast
  let ?upd = "build_update_data ann"
  let ?d' = "d\<lparr>entries := set_fields ?upd (entries d)\<rparr>"
  from update_announcement_found
    [where ObjectId = ObjectId and announcement_id = announcement_id and str = str,
      OF reg ne parse found] assms
  have r: "r = render str ?d'"
    and db': "db' = db\<lparr>announcements_collection :=
                      snd (update_one (announcements_collection db) k ?upd)\<rparr>"
    by simp_all
  from db' find_one_update_one [OF found, of ?upd]
  have f: "find_one (announcements_collection db') k = Some ?d'"
    by simp
  have m: "\<And>f. map_of (entries ?d') f =
             (case supplied ann f of None \<Rightarrow> map_of (entries d) f | Some v \<Rightarrow> Some v)"
    by (simp add: map_of_patched)
  have by_: "map_of (entries ?d') ''created_by'' = map_of (entries d) ''created_by''"
    by (simp add: map_of_patched supplied_def)
  have at: "map_of (entries ?d') ''created_at'' = map_of (entries d) ''created_at''"
    by (simp add: map_of_patched supplied_def)
  have rest: "\<forall>f. supplied ann f = None \<longrightarrow> map_of (entries ?d') f = map_of (entries d) f"
    by (simp add: map_of_patched)
  have keys: "fst ` set (entries d) \<subseteq> fst ` set (entries ?d')"
    by (simp add: keys_set_fields)
  have set: "\<forall>f. dict_get (entries d) f \<noteq> VNone \<longrightarrow> dict_get (entries ?d') f \<noteq> VNone"
  proof (intro allI impI)
    fix f
    assume "dict_get (entries d) f \<noteq> VNone"
    then show "dict_get (entries ?d') f \<noteq> VNone"
      unfolding dict_get_def m
      by (cases "supplied ann f")
         (auto simp: supplied_def split: if_splits option.splits)
  qed
  from parse found f r by_ at rest keys set show ?thesis
    by (intro exI [of _ k] exI [of _ d] exI [of _ ?d']) simp
qed

text \<open>
  \<open>t2\<close> sets a start date on the stored announcement.
\<close>

theorem update_frame_witness:
  "update_announcement hex_ObjectId hex_str ''65a1b2c3d4e5f60718293a4b''
     \<lparr>AnnouncementUpdate.message = None, start_date = Some ''2025-01-03T00:00:00'',
      expiration_date = None, username = ''t2''\<rparr> school_db
   = (Inr \<lparr>oid = ''65a1b2c3d4e5f60718293a4b'',
            entries = [(''message'', VStr ''Exam Friday''),
                       (''start_date'', VStr ''2025-01-03T00:00:00''),
                       (''expiration_date'', VStr ''2025-01-10T00:00:00''),
                       (''created_by'', VStr ''t1''),
                       (''created_at'', VStr ''2025-01-01T08:00:00'')]\<rparr>,
      school_db\<lparr>announcements_collection :=
        [\<lparr>oid = ''65a1b2c3d4e5f60718293a4b'',
          entries = [(''message'', VStr ''Exam Friday''),
                     (''start_date'', VStr ''2025-01-03T00:00:00''),
                     (''expiration_date'', VStr ''2025-01-10T00:00:00''),
                     (''created_by'', VStr ''t1''),
                     (''created_at'', VStr ''2025-01-01T08:00:00'')]\<rparr>]\<rparr>) \<and>
   (\<exists>d (d' :: string doc).
      find_one (announcements_collection school_db) ''65a1b2c3d4e5f60718293a4b'' = Some d \<and>
      map_of (entries d') ''created_by'' = map_of (entries d) ''created_by'' \<and>
      map_of (entries d') ''created_at'' = map_of (entries d) ''created_at'' \<and>
      map_of (entries d') ''message'' = map_of (entries d) ''message'' \<and>
      fst ` set (entries d) \<subseteq> fst ` set (entries d'))"
proof -
  define ann where "ann = \<lparr>AnnouncementUpdate.message = None,
    start_date = Some ''2025-01-03T00:00:00'', expiration_date = None, username = ''t2''\<rparr>"
  define es where "es = [(''message'', VStr ''Exam Friday''),
              (''start_date'', VStr ''2025-01-03T00:00:00''),
              (''expiration_date'', VStr ''2025-01-10T00:00:00''),
              (''created_by'', VStr ''t1''),
              (''created_at'', VStr ''2025-01-01T08:00:00'')]"
  define r where "r = \<lparr>oid = ''65a1b2c3d4e5f60718293a4b'', entries = es\<rparr>"
  define db' where "db' = school_db\<lparr>announcements_collection := [r]\<rparr>"
  define aid where "aid = ''65a1b2c3d4e5f60718293a4b''"
  have p: "hex_ObjectId aid = Some aid"
    by (simp add: aid_def hex_ObjectId_def is_hex_def lower_hex_def)
  have h: "update_announcement hex_ObjectId hex_str aid ann school_db = (Inr r, db')"
    unfolding ann_def r_def es_def db'_def aid_def
    by (simp add: update_announcement_def p [unfolded aid_def] build_update_data_def
        set_fields_def render_def hex_str_def school_db_def exam_friday_def)
  from update_frame [OF h] obtain k d d'
    where c: "hex_ObjectId aid = Some k \<and>
           find_one (announcements_collection school_db) k = Some d \<and>
           find_one (announcements_collection db') k = Some d' \<and>
           r = render hex_str d' \<and> oid d' = oid d \<and>
           map_of (entries d') ''created_by'' = map_of (entries d) ''created_by'' \<and>
           map_of (entries d') ''created_at'' = map_of (entries d) ''created_at'' \<and>
           (\<forall>f. supplied ann f = None \<longrightarrow> map_of (entries d') f = map_of (entries d) f) \<and>
           fst ` set (entries d) \<subseteq> fst ` set (entries d') \<and>
           (\<forall>f. dict_get (entries d) f \<noteq> VNone \<longrightarrow> dict_get (entries d') f \<noteq> VNone)"
    by (elim exE)
  from c have k: "hex_ObjectId aid = Some k"
    by (elim conjE)
  from c have w: "find_one (announcements_collection school_db) k = Some d"
      "map_of (entries d') ''created_by'' = map_of (entries d) ''created_by''"
      "map_of (entries d') ''created_at'' = map_of (entries d) ''created_at''"
      "\<forall>f. supplied ann f = None \<longrightarrow> map_of (entries d') f = map_of (entries d) f"
      "fst ` set (entries d) \<subseteq> fst ` set (entries d')"
    by simp_all
  from k p have k': "k = aid"
    by simp
  have "supplied ann ''message'' = None"
    by (simp add: supplied_def ann_def)
  with w(4) have m: "map_of (entries d') ''message'' = map_of (entries d) ''message''"
    by (elim allE impE)
  from w(1,2,3,5) m
  have "\<exists>d (d' :: string doc). find_one (announcements_collection school_db) aid = Some d \<and>
      map_of (entries d') ''created_by'' = map_of (entries d) ''created_by'' \<and>
      map_of (entries d') ''created_at'' = map_of (entries d) ''created_at'' \<and>
      map_of (entries d') ''message'' = map_of (entries d) ''message'' \<and>
      fst ` set (entries d) \<subseteq> fst ` set (entries d')"
    unfolding k' by (intro exI [of _ d] exI [of _ d'] conjI)
  with h show ?thesis
    unfolding ann_def r_def es_def db'_def aid_def by (rule conjI)
qed

subsection \<open>Deleting twice\<close>

text \<open>
  Claim C6. Let the identifiers of the collection be distinct (the store's unique index
  on \<open>_id\<close>), the author registered and the identifier parse to \<open>k\<close>. If a document
  has key \<open>k\<close>, the delete answers with the confirmation and the same delete on the
  resulting database fails with NotFound (status 404), leaving that database as it is.
  If no document has key \<open>k\<close>, the delete fails with NotFound and changes nothing.
\<close>

theorem delete_twice_not_found:
  assumes reg: "user \<in> oid ` set (teachers_collection db)"
    and parse: "ObjectId announcement_id = Some k"
    and uniq: "distinct (map oid (announcements_collection db))"
  shows "(k \<in> oid ` set (announcements_collection db) \<longrightarrow>
            (\<exists>db1. delete_announcement ObjectId announcement_id user db =
                      (Inr [(''message'', ''Announcement deleted successfully'')], db1) \<and>
                    delete_announcement ObjectId announcement_id user db1 =
                      (Inl (HTTPException 404 ''Announcement not found''), db1))) \<and>
         (k \<notin> oid ` set (announcements_collection db) \<longrightarrow>
            delete_announcement ObjectId announcement_id user db =
              (Inl (HTTPException 404 ''Announcement not found''), db))"
proof (intro conjI impI)
  assume found: "k \<in> oid ` set (announcements_collection db)"
  let ?db1 = "db\<lparr>announcements_collection := snd (delete_one (announcements_collection db) k)\<rparr>"
  have first: "delete_announcement ObjectId announcement_id user db =
                 (Inr [(''message'', ''Announcement deleted successfully'')], ?db1)"
    by (rule delete_announcement_found [where ObjectId = ObjectId and announcement_id = announcement_id, OF reg parse found])
  have reg1: "user \<in> oid ` set (teachers_collection ?db1)"
    using reg by simp
  have gone: "k \<notin> oid ` set (announcements_collection ?db1)"
    using delete_one_removes [OF uniq, of k] by simp
  have second: "delete_announcement ObjectId announcement_id user ?db1 =
                  (Inl (HTTPException 404 ''Announcement not found''), ?db1)"
    by (rule delete_announcement_missing [where ObjectId = ObjectId and announcement_id = announcement_id, OF reg1 parse gone])
  from first second
  show "\<exists>db1. delete_announcement ObjectId announcement_id user db =
                 (Inr [(''message'', ''Announcement deleted successfully'')], db1) \<and>
               delete_announcement ObjectId announcement_id user db1 =
                 (Inl (HTTPException 404 ''Announcement not found''), db1)"
    by blast
next
  assume "k \<notin> oid ` set (announcements_collection db)"
  then show "delete_announcement ObjectId announcement_id user db =
               (Inl (HTTPException 404 ''Announcement not found''), db)"
    by (rule delete_announcement_missing [where ObjectId = ObjectId and announcement_id = announcement_id, OF reg parse])
qed

text \<open>
  \<open>t1\<close> deletes the stored announcement twice.
\<close>

theorem delete_twice_not_found_witness:
  "''t1'' \<in> oid ` set (teachers_collection school_db) \<and>
   hex_ObjectId ''65a1b2c3d4e5f60718293a4b'' = Some ''65a1b2c3d4e5f60718293a4b'' \<and>
   distinct (map oid (announcements_collection school_db)) \<and>
   ''65a1b2c3d4e5f60718293a4b'' \<in> oid ` set (announcements_collection school_db) \<and>
   (\<exists>db1. delete_announcement hex_ObjectId ''65a1b2c3d4e5f60718293a4b'' ''t1'' school_db =
            (Inr [(''message'', ''Announcement deleted successfully'')], db1) \<and>
          delete_announcement hex_ObjectId ''65a1b2c3d4e5f60718293a4b'' ''t1'' db1 =
            (Inl (HTTPException 404 ''Announcement not found''), db1))"
proof -
  have h1: "''t1'' \<in> oid ` set (teachers_collection school_db)"
    by (simp add: school_db_def)
  have h2: "hex_ObjectId ''65a1b2c3d4e5f60718293a4b'' = Some ''65a1b2c3d4e5f60718293a4b''"
    by (simp add: hex_ObjectId_def is_hex_def lower_hex_def)
  have h3: "distinct (map oid (announcements_collection school_db))"
    by (simp add: school_db_def)
  have h4: "''65a1b2c3d4e5f60718293a4b'' \<in> oid ` set (announcements_collection school_db)"
    by (simp add: school_db_def)
  from delete_twice_not_found
    [where ObjectId = hex_ObjectId and announcement_id = "''65a1b2c3d4e5f60718293a4b''",
      OF h1 h2 h3] h1 h2 h3 h4
  show ?thesis by blast
qed

subsection \<open>Identifiers that do not parse\<close>

text \<open>
  Claim C7, as amended. Let the author be registered and the identifier not parse. A
  delete, and an update that supplies at least one field, raise the parser's
  \<open>InvalidId\<close> and leave the database unchanged; no handler turns the exception into an
  \<open>HTTPException\<close>, so it is answered with status 500 and is not a client error. An
  update that supplies no field fails with BadRequest before the identifier is parsed.
\<close>

theorem malformed_identifier_unhandled:
  assumes reg_d: "user \<in> oid ` set (teachers_collection db)"
    and reg_u: "AnnouncementUpdate.username ann \<in> oid ` set (teachers_collection db)"
    and malformed: "ObjectId announcement_id = None"
  shows "delete_announcement ObjectId announcement_id user db =
           (Inl (InvalidId announcement_id), db) \<and>
         (build_update_data ann \<noteq> [] \<longrightarrow>
            update_announcement ObjectId str announcement_id ann db =
              (Inl (InvalidId announcement_id), db)) \<and>
         (build_update_data ann = [] \<longrightarrow>
            update_announcement ObjectId str announcement_id ann db =
              (Inl (HTTPException 400 ''No fields to update''), db)) \<and>
         status_code (InvalidId announcement_id) = 500 \<and>
         \<not> client_error (InvalidId announcement_id)"
proof -
  from registered_find_one [OF reg_d] obtain t1
    where t1: "find_one (teachers_collection db) user = Some t1"
    by blast
  from registered_find_one [OF reg_u] obtain t2
    where t2: "find_one (teachers_collection db) (AnnouncementUpdate.username ann) = Some t2"
    by blast
  have "delete_announcement ObjectId announcement_id user db =
          (Inl (InvalidId announcement_id), db)"
    using t1 malformed by (simp add: delete_announcement_def)
  moreover have "build_update_data ann \<noteq> [] \<longrightarrow>
      update_announcement ObjectId str announcement_id ann db =
        (Inl (InvalidId announcement_id), db)"
    using t2 malformed by (simp add: update_announcement_def)
  moreover have "build_update_data ann = [] \<longrightarrow>
      update_announcement ObjectId str announcement_id ann db =
        (Inl (HTTPException 400 ''No fields to update''), db)"
    using t2 by (simp add: update_announcement_def)
  ultimately show ?thesis
    by (simp add: client_error_def)
qed

text \<open>
  \<open>t1\<close> deletes and updates under the identifier \<open>not-an-id\<close>.
\<close>

theorem malformed_identifier_unhandled_witness:
  "''t1'' \<in> oid ` set (teachers_collection school_db) \<and>
   hex_ObjectId ''not-an-id'' = None \<and>
   delete_announcement hex_ObjectId ''not-an-id'' ''t1'' school_db =
     (Inl (InvalidId ''not-an-id''), school_db) \<and>
   update_announcement hex_ObjectId hex_str ''not-an-id''
     \<lparr>AnnouncementUpdate.message = Some ''Exam Monday'', start_date = None,
      expiration_date = None, username = ''t1''\<rparr> school_db =
     (Inl (InvalidId ''not-an-id''), school_db) \<and>
   status_code (InvalidId ''not-an-id'') = 500"
proof -
  let ?ann = "\<lparr>AnnouncementUpdate.message = Some ''Exam Monday'', start_date = None,
               expiration_date = None, username = ''t1''\<rparr>"
  have h1: "''t1'' \<in> oid ` set (teachers_collection school_db)"
    by (simp add: school_db_def)
  have h2: "AnnouncementUpdate.username ?ann \<in> oid ` set (teachers_collection school_db)"
    by (simp add: school_db_def)
  have h3: "hex_ObjectId ''not-an-id'' = None"
    by (simp add: hex_ObjectId_def)
  have ne: "build_update_data ?ann \<noteq> []"
    by (simp add: build_update_data_def)
  from malformed_identifier_unhandled
    [where ObjectId = hex_ObjectId and announcement_id = "''not-an-id''" and str = hex_str,
      OF h1 h2 h3] h1 h3 ne
  show ?thesis by blast
qed

text \<open>
  Claim C7 as the specification states it fails: a delete by the registered \<open>t1\<close>
  under \<open>not-an-id\<close> ends in \<open>InvalidId\<close>, which is not a client error.
\<close>

theorem malformed_identifier_counterexample:
  "delete_announcement hex_ObjectId ''not-an-id'' ''t1''
     \<lparr>announcements_collection = [], teachers_collection = [\<lparr>oid = ''t1'', entries = []\<rparr>]\<rparr>
   = (Inl (InvalidId ''not-an-id''),
      \<lparr>announcements_collection = [], teachers_collection = [\<lparr>oid = ''t1'', entries = []\<rparr>]\<rparr>)
   \<and> \<not> client_error (InvalidId ''not-an-id'')"
  by (simp add: delete_announcement_def hex_ObjectId_def client_error_def)

subsection \<open>Creating, then listing\<close>



subsection \<open>Empty timestamps\<close>

text \<open>
  Claim C9. A document whose \<open>expiration_date\<close> is the empty string never fails the
  expiration test, at any \<open>now\<close>: the test answers as it does without the key, and
  the document is listed whenever the start test lets it through. Likewise a document
  whose \<open>start_date\<close> is the empty string never fails the start test.
\<close>

theorem empty_string_timestamp_as_absent:
  "(dict_get (entries a) ''expiration_date'' = VStr '''' \<longrightarrow>
      \<not> expired a now \<and>
      expired a now = expired (a\<lparr>entries := AList.delete ''expiration_date'' (entries a)\<rparr>) now \<and>
      (a \<in> set (announcements_collection db) \<and> \<not> not_started a now \<longrightarrow>
         render str a \<in> set (get_active_announcements str now db))) \<and>
   (dict_get (entries a) ''start_date'' = VStr '''' \<longrightarrow>
      \<not> not_started a now \<and>
      not_started a now = not_started (a\<lparr>entries := AList.delete ''start_date'' (entries a)\<rparr>) now \<and>
      (a \<in> set (announcements_collection db) \<and> \<not> expired a now \<longrightarrow>
         render str a \<in> set (get_active_announcements str now db)))"
proof (intro conjI impI)
  assume e: "dict_get (entries a) ''expiration_date'' = VStr ''''"
  then show ne: "\<not> expired a now"
    by (simp add: expired_def)
  show "expired a now = expired (a\<lparr>entries := AList.delete ''expiration_date'' (entries a)\<rparr>) now"
    using e by (simp add: expired_def dict_get_def delete_conv')
  assume "a \<in> set (announcements_collection db) \<and> \<not> not_started a now"
  with ne show "render str a \<in> set (get_active_announcements str now db)"
    unfolding get_active_member in_window_iff by blast
next
  assume s: "dict_get (entries a) ''start_date'' = VStr ''''"
  then show ns: "\<not> not_started a now"
    by (simp add: not_started_def)
  show "not_started a now =
          not_started (a\<lparr>entries := AList.delete ''start_date'' (entries a)\<rparr>) now"
    using s by (simp add: not_started_def dict_get_def delete_conv')
  assume "a \<in> set (announcements_collection db) \<and> \<not> expired a now"
  with ns show "render str a \<in> set (get_active_announcements str now db)"
    unfolding get_active_member in_window_iff by blast
qed

text \<open>
  A document with both dates empty is listed.
\<close>

theorem empty_string_timestamp_as_absent_witness:
  "dict_get [(''message'', VStr ''Open house''), (''start_date'', VStr ''''),
             (''expiration_date'', VStr '''')] ''expiration_date'' = VStr '''' \<and>
   dict_get [(''message'', VStr ''Open house''), (''start_date'', VStr ''''),
             (''expiration_date'', VStr '''')] ''start_date'' = VStr '''' \<and>
   \<lparr>oid = ''65a1b2c3d4e5f60718293a4d'',
    entries = [(''message'', VStr ''Open house''), (''start_date'', VStr ''''),
               (''expiration_date'', VStr '''')]\<rparr>
     \<in> set (get_active_announcements hex_str ''2025-01-05T00:00:00''
              \<lparr>announcements_collection =
                 [\<lparr>oid = ''65a1b2c3d4e5f60718293a4d'',
                   entries = [(''message'', VStr ''Open house''), (''start_date'', VStr ''''),
                              (''expiration_date'', VStr '''')]\<rparr>],
               teachers_collection = []\<rparr>)"
proof -
  define es where "es = [(''message'', VStr ''Open house''), (''start_date'', VStr ''''),
                         (''expiration_date'', VStr '''')]"
  define a where "a = \<lparr>oid = ''65a1b2c3d4e5f60718293a4d'', entries = es\<rparr>"
  define db :: "string database"
    where "db = \<lparr>announcements_collection = [a], teachers_collection = []\<rparr>"
  define now where "now = ''2025-01-05T00:00:00''"
  have e: "dict_get (entries a) ''expiration_date'' = VStr ''''"
    by (simp add: a_def es_def dict_get_def)
  have s: "dict_get (entries a) ''start_date'' = VStr ''''"
    by (simp add: a_def es_def dict_get_def)
  have m: "a \<in> set (announcements_collection db)"
    by (simp add: db_def)
  from empty_string_timestamp_as_absent [of a now db hex_str] e s
  have ns: "\<not> not_started a now"
    and i: "a \<in> set (announcements_collection db) \<and> \<not> not_started a now \<longrightarrow>
         render hex_str a \<in> set (get_active_announcements hex_str now db)"
    by blast+
  from i m ns have "render hex_str a \<in> set (get_active_announcements hex_str now db)"
    by blast
  moreover have "render hex_str a = a"
    by (simp add: render_def a_def hex_str_def)
  ultimately have "a \<in> set (get_active_announcements hex_str now db)"
    by simp
  with e s show ?thesis
    unfolding a_def db_def now_def es_def by simp
qed

subsection \<open>No ownership check\<close>

text \<open>
  Claim C10. Let \<open>r\<close> be a stored document created by \<open>c\<close> and \<open>m\<close> a
  registered member other than \<open>c\<close>. A delete by \<open>m\<close> under the identifier of
  \<open>r\<close> succeeds, and so does an update by \<open>m\<close> that supplies a field, leaving
  \<open>created_by\<close> at \<open>c\<close>. When \<open>c\<close> is registered too, both operations give for
  \<open>m\<close> the very outcome and database they give for \<open>c\<close>.
\<close>

theorem no_ownership_check:
  assumes reg: "m \<in> oid ` set (teachers_collection db)"
    and parse: "ObjectId announcement_id = Some k"
    and found: "find_one (announcements_collection db) k = Some r"
    and owner: "dict_get (entries r) ''created_by'' = VStr c"
    and other: "m \<noteq> c"
  shows "(\<exists>db'. delete_announcement ObjectId announcement_id m db =
                  (Inr [(''message'', ''Announcement deleted successfully'')], db')) \<and>
         (build_update_data ann \<noteq> [] \<longrightarrow>
            (\<exists>r' db'. update_announcement ObjectId str announcement_id
                         (ann\<lparr>username := m\<rparr>) db = (Inr r', db') \<and>
                       dict_get (entries r') ''created_by'' = VStr c)) \<and>
         (c \<in> oid ` set (teachers_collection db) \<longrightarrow>
            delete_announcement ObjectId announcement_id m db =
              delete_announcement ObjectId announcement_id c db \<and>
            update_announcement ObjectId str announcement_id (ann\<lparr>username := m\<rparr>) db =
              update_announcement ObjectId str announcement_id (ann\<lparr>username := c\<rparr>) db)"
proof (intro conjI impI)
  from find_one_SomeD [OF found] have k: "k \<in> oid ` set (announcements_collection db)"
    by auto
  from delete_announcement_found
    [where ObjectId = ObjectId and announcement_id = announcement_id, OF reg parse k]
  show "\<exists>db'. delete_announcement ObjectId announcement_id m db =
                (Inr [(''message'', ''Announcement deleted successfully'')], db')"
    by blast
next
  assume ne: "build_update_data ann \<noteq> []"
  let ?ann = "ann\<lparr>username := m\<rparr>"
  have b: "build_update_data ?ann = build_update_data ann"
    by (simp add: build_update_data_def)
  have reg': "AnnouncementUpdate.username ?ann \<in> oid ` set (teachers_collection db)"
    using reg by simp
  let ?r' = "r\<lparr>entries := set_fields (build_update_data ann) (entries r)\<rparr>"
  from update_announcement_found
    [where ObjectId = ObjectId and announcement_id = announcement_id and str = str
       and ann = ?ann, OF reg' _ parse found] ne b
  have u: "update_announcement ObjectId str announcement_id ?ann db =
             (Inr (render str ?r'),
              db\<lparr>announcements_collection :=
                   snd (update_one (announcements_collection db) k (build_update_data ann))\<rparr>)"
    by simp
  have "dict_get (entries (render str ?r')) ''created_by'' = VStr c"
    using owner by (simp add: render_def dict_get_def map_of_patched supplied_def)
  with u show "\<exists>r' db'. update_announcement ObjectId str announcement_id ?ann db = (Inr r', db') \<and>
                 dict_get (entries r') ''created_by'' = VStr c"
    by blast
next
  assume regc: "c \<in> oid ` set (teachers_collection db)"
  from registered_find_one [OF reg] obtain tm
    where tm: "find_one (teachers_collection db) m = Some tm" by blast
  from registered_find_one [OF regc] obtain tc
    where tc: "find_one (teachers_collection db) c = Some tc" by blast
  show "delete_announcement ObjectId announcement_id m db =
          delete_announcement ObjectId announcement_id c db"
    using tm tc by (simp add: delete_announcement_def)
  show "update_announcement ObjectId str announcement_id (ann\<lparr>username := m\<rparr>) db =
          update_announcement ObjectId str announcement_id (ann\<lparr>username := c\<rparr>) db"
    using tm tc by (simp add: update_announcement_def build_update_data_def)
qed

text \<open>
  \<open>t2\<close> updates and deletes the announcement that \<open>t1\<close> created.
\<close>

theorem no_ownership_check_witness:
  "''t2'' \<in> oid ` set (teachers_collection school_db) \<and>
   ''t1'' \<in> oid ` set (teachers_collection school_db) \<and>
   hex_ObjectId ''65a1b2c3d4e5f60718293a4b'' = Some ''65a1b2c3d4e5f60718293a4b'' \<and>
   find_one (announcements_collection school_db) ''65a1b2c3d4e5f60718293a4b'' =
     Some \<lparr>oid = ''65a1b2c3d4e5f60718293a4b'', entries = exam_friday\<rparr> \<and>
   dict_get exam_friday ''created_by'' = VStr ''t1'' \<and>
   (\<exists>db'. delete_announcement hex_ObjectId ''65a1b2c3d4e5f60718293a4b'' ''t2'' school_db =
            (Inr [(''message'', ''Announcement deleted successfully'')], db')) \<and>
   (\<exists>r' db'. update_announcement hex_ObjectId hex_str ''65a1b2c3d4e5f60718293a4b''
       \<lparr>AnnouncementUpdate.message = Some ''Exam cancelled'', start_date = None,
        expiration_date = None, username = ''t2''\<rparr> school_db = (Inr r', db')) \<and>
   delete_announcement hex_ObjectId ''65a1b2c3d4e5f60718293a4b'' ''t2'' school_db =
     delete_announcement hex_ObjectId ''65a1b2c3d4e5f60718293a4b'' ''t1'' school_db \<and>
   update_announcement hex_ObjectId hex_str ''65a1b2c3d4e5f60718293a4b''
       \<lparr>AnnouncementUpdate.message = Some ''Exam cancelled'', start_date = None,
        expiration_date = None, username = ''t2''\<rparr> school_db =
     update_announcement hex_ObjectId hex_str ''65a1b2c3d4e5f60718293a4b''
       \<lparr>AnnouncementUpdate.message = Some ''Exam cancelled'', start_date = None,
        expiration_date = None, username = ''t1''\<rparr> school_db"
proof -
  define ann where "ann = \<lparr>AnnouncementUpdate.message = Some ''Exam cancelled'',
    start_date = None, expiration_date = None, username = ''t2''\<rparr>"
  define aid where "aid = ''65a1b2c3d4e5f60718293a4b''"
  define r where "r = \<lparr>oid = aid, entries = exam_friday\<rparr>"
  have h1: "''t2'' \<in> oid ` set (teachers_collection school_db)"
    by (simp add: school_db_def)
  have h2: "hex_ObjectId aid = Some aid"
    by (simp add: aid_def hex_ObjectId_def is_hex_def lower_hex_def)
  have h3: "find_one (announcements_collection school_db) aid = Some r"
    by (simp add: school_db_def r_def aid_def)
  have h4: "dict_get (entries r) ''created_by'' = VStr ''t1''"
    by (simp add: r_def exam_friday_def dict_get_def)
  have entries_r: "entries \<lparr>oid = ''65a1b2c3d4e5f60718293a4b'', entries = exam_friday\<rparr> = exam_friday"
    by simp
  have h5: "''t2'' \<noteq> ''t1''"
    by simp
  have h6: "build_update_data ann \<noteq> []"
    by (simp add: ann_def build_update_data_def)
  have h7: "''t1'' \<in> oid ` set (teachers_collection school_db)"
    by (simp add: school_db_def)
  have u: "ann\<lparr>username := ''t2''\<rparr> = ann"
    "ann\<lparr>username := ''t1''\<rparr> = \<lparr>AnnouncementUpdate.message = Some ''Exam cancelled'',
        start_date = None, expiration_date = None, username = ''t1''\<rparr>"
    by (simp_all add: ann_def)
  note t = no_ownership_check
    [where ObjectId = hex_ObjectId and announcement_id = aid and str = hex_str and ann = ann,
      OF h1 h2 h3 h4 h5]
  from t h6 h7 have
    "(\<exists>db'. delete_announcement hex_ObjectId aid ''t2'' school_db =
            (Inr [(''message'', ''Announcement deleted successfully'')], db')) \<and>
     (\<exists>r' db'. update_announcement hex_ObjectId hex_str aid (ann\<lparr>username := ''t2''\<rparr>) school_db =
                  (Inr r', db')) \<and>
     delete_announcement hex_ObjectId aid ''t2'' school_db =
       delete_announcement hex_ObjectId aid ''t1'' school_db \<and>
     update_announcement hex_ObjectId hex_str aid (ann\<lparr>username := ''t2''\<rparr>) school_db =
       update_announcement hex_ObjectId hex_str aid (ann\<lparr>username := ''t1''\<rparr>) school_db"
    by blast
  with h1 h7 h2 h3 h4 show ?thesis
    unfolding u unfolding ann_def aid_def r_def entries_r
    by - (elim conjE, intro conjI, assumption+)
qed

end
